theory Spec2Isabelle
  imports Complex_Main
begin

unbundle bit_operations_syntax

section \<open>The parsed document model\<close>

text \<open>
  The filler and the flattener of \<^verbatim>\<open>simple_pdf_filler.py\<close> work on the object
  model of a parsed PDF: dictionaries reached through indirect references and
  mutated in place. The model keeps every dictionary object in a store (a list
  indexed by reference number); a page lists the references of its annotations,
  and an annotation names its parent field by reference, so that a write to a
  field is seen by every widget that shares it.

  A dictionary object is a record of the entries the program reads or writes,
  each typed as the PDF format types it and optional where the code uses
  \<^verbatim>\<open>get\<close>. Names keep their leading solidus, as the name objects of the
  parser do (\<^verbatim>\<open>"/Widget"\<close>, \<^verbatim>\<open>"/Off"\<close>). Python floats are
  modelled as exact rationals: rounding is not modelled.
\<close>

datatype error = MalformedDocument

datatype pvalue = VText string | VArray "string list"

datatype opt_item = OStr string | OArr "string list"

datatype opt_entry = OptList "opt_item list" | OptNotIterable

record pdfobj =
  k_Subtype :: "string option"
  k_Parent :: "nat option"
  k_FT :: "string option"
  k_Ff :: "int option"
  k_T :: "string option"
  k_V :: "pvalue option"
  k_AS :: "string option"
  k_AP :: "string list option option"
  k_Rect :: "rat list option"
  k_Opt :: "opt_entry option"

text \<open>
  \<open>k_AP\<close> is \<open>None\<close> without an \<^verbatim>\<open>/AP\<close> entry, \<open>Some None\<close> for an
  appearance dictionary without \<^verbatim>\<open>/N\<close>, and \<open>Some (Some ks)\<close> for a normal
  appearance dictionary with the keys \<open>ks\<close>, in the order of the dictionary.
  \<open>OptNotIterable\<close> is an \<^verbatim>\<open>/Opt\<close> entry that is true as a condition and
  cannot be iterated (a non-zero number, say).
\<close>

datatype field_value = VStr string | VBool bool | VColl "string list"

type_synonym data = "string \<rightharpoonup> field_value"

text \<open>
  A submitted value is a string, a boolean or a collection (list, set or
  tuple) of strings, listed in its iteration order.

  Python's \<^verbatim>\<open>str\<close> of a sequence of strings quotes and escapes each element;
  that library function is the parameter \<open>L\<close> of every definition that may
  reach it.
\<close>

definition py_bool :: "field_value \<Rightarrow> bool" where
  "py_bool v = (case v of VStr s \<Rightarrow> s \<noteq> [] | VBool b \<Rightarrow> b | VColl xs \<Rightarrow> xs \<noteq> [])"

definition py_str :: "(string list \<Rightarrow> string) \<Rightarrow> field_value \<Rightarrow> string" where
  "py_str L v = (case v of VStr s \<Rightarrow> s
                 | VBool b \<Rightarrow> (if b then ''True'' else ''False'')
                 | VColl xs \<Rightarrow> L xs)"

definition str_pvalue :: "(string list \<Rightarrow> string) \<Rightarrow> pvalue \<Rightarrow> string" where
  "str_pvalue L v = (case v of VText s \<Rightarrow> s | VArray xs \<Rightarrow> L xs)"

definition str_item :: "(string list \<Rightarrow> string) \<Rightarrow> opt_item \<Rightarrow> string" where
  "str_item L it = (case it of OStr s \<Rightarrow> s | OArr xs \<Rightarrow> L xs)"

section \<open>Field classification\<close>

definition is_widget :: "pdfobj \<Rightarrow> bool" where
  "is_widget annot \<longleftrightarrow> k_Subtype annot = Some ''/Widget''"

definition ff :: "pdfobj \<Rightarrow> int" where
  "ff field = (case k_Ff field of None \<Rightarrow> 0 | Some i \<Rightarrow> i)"

definition is_pushbutton :: "pdfobj \<Rightarrow> bool" where
  "is_pushbutton field \<longleftrightarrow> (ff field AND push_bit 16 1) \<noteq> 0"

definition is_radio :: "pdfobj \<Rightarrow> bool" where
  "is_radio field \<longleftrightarrow> (ff field AND push_bit 15 1) \<noteq> 0"

definition is_text :: "pdfobj \<Rightarrow> bool" where
  "is_text field \<longleftrightarrow> k_FT field = Some ''/Tx''"

definition is_checkbox :: "pdfobj \<Rightarrow> bool" where
  "is_checkbox field \<longleftrightarrow> k_FT field = Some ''/Btn'' \<and> \<not> is_pushbutton field"

definition is_choice :: "pdfobj \<Rightarrow> bool" where
  "is_choice field \<longleftrightarrow> k_FT field = Some ''/Ch''"

definition choice_is_combo :: "pdfobj \<Rightarrow> bool" where
  "choice_is_combo field \<longleftrightarrow> (ff field AND push_bit 17 1) \<noteq> 0"

definition choice_is_editable :: "pdfobj \<Rightarrow> bool" where
  "choice_is_editable field \<longleftrightarrow> (ff field AND push_bit 18 1) \<noteq> 0"

definition choice_is_multiselect :: "pdfobj \<Rightarrow> bool" where
  "choice_is_multiselect field \<longleftrightarrow> (ff field AND push_bit 21 1) \<noteq> 0"

section \<open>Checkbox state\<close>

fun first_on :: "string list \<Rightarrow> string" where
  "first_on [] = ''/Yes''"
| "first_on (k # ks) = (if k \<noteq> ''/Off'' then k else first_on ks)"

definition checkbox_on_name :: "pdfobj \<Rightarrow> string" where
  "checkbox_on_name annot =
     (case k_AP annot of
        None \<Rightarrow> ''/Yes''
      | Some ap \<Rightarrow>
          (case ap of
             None \<Rightarrow> ''/Yes''
           | Some n \<Rightarrow> (if n = [] then ''/Yes'' else first_on n)))"

definition set_checkbox_state :: "pdfobj \<Rightarrow> bool \<Rightarrow> pdfobj" where
  "set_checkbox_state annot checked =
     annot\<lparr>k_AS := Some (if checked then checkbox_on_name annot else ''/Off'')\<rparr>"

definition set_text_value :: "pdfobj \<Rightarrow> string \<Rightarrow> pdfobj" where
  "set_text_value field v = field\<lparr>k_V := Some (VText v)\<rparr>"

section \<open>Choice options\<close>

text \<open>
  Reading one option raises exactly when it is an array without a first
  element: the handler of a missing second element reads the first again.
\<close>

definition parse_option :: "opt_item \<Rightarrow> error + (string \<times> string)" where
  "parse_option obj =
     (case obj of
        OArr xs \<Rightarrow>
          (case xs of
             [] \<Rightarrow> Inl MalformedDocument
           | [e] \<Rightarrow> Inr (e, e)
           | e # d # _ \<Rightarrow> Inr (e, d))
      | OStr s \<Rightarrow> Inr (s, s))"

text \<open>
  The first loop of \<^verbatim>\<open>_choice_options\<close>: it appends to \<open>result\<close> until an
  option raises, and returns what it appended with the flag of the exception.
\<close>

fun parse_loop :: "opt_item list \<Rightarrow> (string \<times> string) list \<Rightarrow> (string \<times> string) list \<times> bool" where
  "parse_loop [] result = (result, False)"
| "parse_loop (it # its) result =
     (case parse_option it of
        Inl _ \<Rightarrow> (result, True)
      | Inr p \<Rightarrow> parse_loop its (result @ [p]))"

definition choice_options :: "(string list \<Rightarrow> string) \<Rightarrow> pdfobj \<Rightarrow> (string \<times> string) list" where
  "choice_options L field =
     (case k_Opt field of
        None \<Rightarrow> []
      | Some OptNotIterable \<Rightarrow> []
      | Some (OptList opts) \<Rightarrow>
          (if opts = [] then []
           else (case parse_loop opts [] of
                   (result, False) \<Rightarrow> result
                 | (result, True) \<Rightarrow> result @ map (\<lambda>it. (str_item L it, str_item L it)) opts)))"

fun first_display :: "(string \<times> string) list \<Rightarrow> string \<Rightarrow> string" where
  "first_display [] export = export"
| "first_display ((ex, disp) # rest) export = (if ex = export then disp else first_display rest export)"

definition choice_export_to_display :: "(string list \<Rightarrow> string) \<Rightarrow> pdfobj \<Rightarrow> string \<Rightarrow> string" where
  "choice_export_to_display L field export = first_display (choice_options L field) export"

definition displays_dict :: "(string \<times> string) list \<Rightarrow> (string \<rightharpoonup> string)" where
  "displays_dict options = foldl (\<lambda>m (ex, disp). m(disp \<mapsto> ex)) Map.empty options"

definition choice_display_to_export :: "(string list \<Rightarrow> string) \<Rightarrow> pdfobj \<Rightarrow> string \<Rightarrow> string" where
  "choice_display_to_export L field display_or_export =
     (let options = choice_options L field;
          exports = set (map fst options);
          displays = displays_dict options
      in if display_or_export \<in> exports then display_or_export
         else (case displays display_or_export of
                 None \<Rightarrow> display_or_export
               | Some ex \<Rightarrow> ex))"

definition set_choice_value :: "(string list \<Rightarrow> string) \<Rightarrow> pdfobj \<Rightarrow> field_value \<Rightarrow> pdfobj" where
  "set_choice_value L field v =
     (case v of
        VColl xs \<Rightarrow> field\<lparr>k_V := Some (VArray (map (choice_display_to_export L field) xs))\<rparr>
      | _ \<Rightarrow> field\<lparr>k_V := Some (VText (choice_display_to_export L field (py_str L v)))\<rparr>)"

section \<open>The value applier\<close>

datatype draw_op =
    SetFont string rat
  | SetFillGray rat
  | DrawString rat rat string
  | SetLineWidth rat
  | SetStrokeGray rat
  | Line rat rat rat rat

record page =
  annots :: "nat list option"
  mediabox :: "rat \<times> rat"
  content_ops :: "draw_op list"

record doc =
  objs :: "pdfobj list"
  pages :: "page list"
  acroform :: "bool option option"

text \<open>
  \<open>annots\<close> is the \<^verbatim>\<open>/Annots\<close> array of the page, as references into the
  store; \<open>acroform\<close> is \<open>None\<close> when the catalog has no \<^verbatim>\<open>/AcroForm\<close>,
  and otherwise holds its \<^verbatim>\<open>/NeedAppearances\<close> entry. A reference outside
  the store is a malformed document: the parser returns no dictionary for it
  and the first access fails.
\<close>

definition get_object :: "pdfobj list \<Rightarrow> nat \<Rightarrow> error + pdfobj" where
  "get_object os r = (if r < length os then Inr (os ! r) else Inl MalformedDocument)"

definition get_field_from_annot :: "pdfobj list \<Rightarrow> nat \<Rightarrow> pdfobj \<Rightarrow> error + (nat \<times> pdfobj)" where
  "get_field_from_annot os a annot =
     (case k_Parent annot of
        None \<Rightarrow> Inr (a, annot)
      | Some p \<Rightarrow> (case get_object os p of Inl e \<Rightarrow> Inl e | Inr field \<Rightarrow> Inr (p, field)))"

definition digit_char :: "nat \<Rightarrow> char" where
  "digit_char d = ''0123456789'' ! d"

fun str_nat :: "nat \<Rightarrow> string" where
  "str_nat n = (if n < 10 then [digit_char n] else str_nat (n div 10) @ [digit_char (n mod 10)])"

declare str_nat.simps [simp del]

definition fill_name_str :: "pdfobj \<Rightarrow> string option" where
  "fill_name_str field = (case k_T field of None \<Rightarrow> None | Some n \<Rightarrow> (if n \<noteq> [] then Some n else None))"

text \<open>
  The decision of the checkbox branch (\<^verbatim>\<open>checked\<close>, lines 161 to 168):
  \<open>None\<close> when no key applies.
\<close>

definition checkbox_checked :: "data \<Rightarrow> string option \<Rightarrow> nat \<Rightarrow> pdfobj \<Rightarrow> bool option" where
  "checkbox_checked data name_str idx annot =
     (case name_str of
        None \<Rightarrow> None
      | Some n \<Rightarrow>
          (case data (n @ ''__'' @ str_nat idx) of
             Some v \<Rightarrow> Some (py_bool v)
           | None \<Rightarrow>
               (case data n of
                  Some (VColl xs) \<Rightarrow>
                    (let on_name = checkbox_on_name annot
                     in Some (drop 1 on_name \<in> set xs \<or> on_name \<in> set xs))
                | Some (VBool b) \<Rightarrow> Some b
                | _ \<Rightarrow> None)))"

type_synonym fill_state = "(string \<rightharpoonup> nat) \<times> pdfobj list"

text \<open>The body of the annotation loop of \<^verbatim>\<open>fill_pdf_fields\<close>.\<close>

definition fill_widget :: "(string list \<Rightarrow> string) \<Rightarrow> data \<Rightarrow> fill_state \<Rightarrow> nat \<Rightarrow> error + fill_state" where
  "fill_widget L data st a =
     (case st of (name_counts, os) \<Rightarrow>
        (case get_object os a of
           Inl e \<Rightarrow> Inl e
         | Inr annot \<Rightarrow>
             if \<not> is_widget annot then Inr st
             else
               (case get_field_from_annot os a annot of
                  Inl e \<Rightarrow> Inl e
                | Inr (f, field) \<Rightarrow>
                    (let name_str = fill_name_str field in
                     if is_text field then
                       (case name_str of
                          None \<Rightarrow> Inr st
                        | Some n \<Rightarrow>
                            (case data n of
                               None \<Rightarrow> Inr st
                             | Some v \<Rightarrow> Inr (name_counts, os[f := set_text_value field (py_str L v)])))
                     else if is_checkbox field \<and> \<not> is_radio field then
                       (let key = (case name_str of None \<Rightarrow> [] | Some n \<Rightarrow> n);
                            idx = (case name_counts key of None \<Rightarrow> 0 | Some c \<Rightarrow> c) + 1;
                            name_counts' = name_counts(key \<mapsto> idx)
                        in case checkbox_checked data name_str idx annot of
                             None \<Rightarrow> Inr (name_counts', os)
                           | Some checked \<Rightarrow> Inr (name_counts', os[a := set_checkbox_state annot checked]))
                     else if is_choice field then
                       (case name_str of
                          None \<Rightarrow> Inr st
                        | Some n \<Rightarrow>
                            (case data n of
                               None \<Rightarrow> Inr st
                             | Some v \<Rightarrow> Inr (name_counts, os[f := set_choice_value L field v])))
                     else Inr st))))"

fun fill_annots :: "(string list \<Rightarrow> string) \<Rightarrow> data \<Rightarrow> fill_state \<Rightarrow> nat list \<Rightarrow> error + fill_state" where
  "fill_annots L data st [] = Inr st"
| "fill_annots L data st (a # as) =
     (case fill_widget L data st a of Inl e \<Rightarrow> Inl e | Inr st' \<Rightarrow> fill_annots L data st' as)"

definition page_annots :: "page \<Rightarrow> nat list" where
  "page_annots p = (case annots p of None \<Rightarrow> [] | Some as \<Rightarrow> as)"

fun fill_pages :: "(string list \<Rightarrow> string) \<Rightarrow> data \<Rightarrow> fill_state \<Rightarrow> page list \<Rightarrow> error + fill_state" where
  "fill_pages L data st [] = Inr st"
| "fill_pages L data st (p # ps) =
     (case fill_annots L data st (page_annots p) of Inl e \<Rightarrow> Inl e | Inr st' \<Rightarrow> fill_pages L data st' ps)"

definition fill_pdf_fields :: "(string list \<Rightarrow> string) \<Rightarrow> doc \<Rightarrow> data \<Rightarrow> error + doc" where
  "fill_pdf_fields L reader data =
     (case fill_pages L data (Map.empty, objs reader) (pages reader) of
        Inl e \<Rightarrow> Inl e
      | Inr (name_counts, os) \<Rightarrow>
          Inr (reader\<lparr>objs := os,
                      acroform := (case acroform reader of None \<Rightarrow> None | Some _ \<Rightarrow> Some (Some True))\<rparr>))"

section \<open>The flattener\<close>

definition to_float_rect :: "pdfobj \<Rightarrow> error + (rat \<times> rat \<times> rat \<times> rat)" where
  "to_float_rect annot =
     (case k_Rect annot of
        Some (x1 # y1 # x2 # y2 # _) \<Rightarrow> Inr (x1, y1, x2, y2)
      | _ \<Rightarrow> Inl MalformedDocument)"

text \<open>
  The loop of the multi-line rendering: \<open>lo\<close> is \<^verbatim>\<open>y1 + 2\<close>, and the loop
  breaks at the first line whose baseline is below it.
\<close>

fun stack_lines :: "rat \<Rightarrow> rat \<Rightarrow> rat \<Rightarrow> rat \<Rightarrow> string list \<Rightarrow> draw_op list" where
  "stack_lines x lo line_h y [] = []"
| "stack_lines x lo line_h y (val # vals) =
     (if y < lo then []
      else DrawString x y val # stack_lines x lo line_h (y - (line_h + 2)) vals)"

text \<open>The body of the annotation loop of \<^verbatim>\<open>flatten_to_visible\<close>: what it draws.\<close>

definition draw_widget :: "(string list \<Rightarrow> string) \<Rightarrow> pdfobj list \<Rightarrow> nat \<Rightarrow> error + draw_op list" where
  "draw_widget L os a =
     (case get_object os a of
        Inl e \<Rightarrow> Inl e
      | Inr annot \<Rightarrow>
          if \<not> is_widget annot then Inr []
          else
            (case get_field_from_annot os a annot of
               Inl e \<Rightarrow> Inl e
             | Inr (f, field) \<Rightarrow>
                 (case to_float_rect annot of
                    Inl e \<Rightarrow> Inl e
                  | Inr (x1, y1, x2, y2) \<Rightarrow>
                      (let w = x2 - x1; h = y2 - y1 in
                       if is_text field then
                         (case k_V field of
                            None \<Rightarrow> Inr []
                          | Some val \<Rightarrow>
                              (let text = str_pvalue L val;
                                   font_size = max 8 (min 12 (h * (6 / 10)));
                                   y_text = y1 + (h - font_size) * (1 / 2) + 1
                               in Inr [SetFont ''Helvetica'' font_size, SetFillGray 0,
                                       DrawString (x1 + 2) y_text text]))
                       else if is_checkbox field \<and> \<not> is_radio field then
                         (let asn = (case k_AS annot of None \<Rightarrow> ''/Off'' | Some s \<Rightarrow> s) in
                          if asn \<noteq> ''/Off'' then
                            Inr [SetLineWidth (max 1 (h * (12 / 100))), SetStrokeGray 0,
                                 Line (x1 + 2) (y1 + 2) (x2 - 2) (y2 - 2),
                                 Line (x1 + 2) (y2 - 2) (x2 - 2) (y1 + 2)]
                          else Inr [])
                       else if is_choice field then
                         (case k_V field of
                            None \<Rightarrow> Inr []
                          | Some v \<Rightarrow>
                              (let vals = (case v of
                                             VArray its \<Rightarrow> map (choice_export_to_display L field) its
                                           | VText s \<Rightarrow> [choice_export_to_display L field s]);
                                   fontsize = max 8 (min 12 (h * (6 / 10)))
                               in Inr ([SetFont ''Helvetica'' fontsize, SetFillGray 0] @
                                    (if length vals \<le> 1 then
                                       (let text = (case vals of [] \<Rightarrow> [] | t # _ \<Rightarrow> t);
                                            y_text = y1 + (h - fontsize) * (1 / 2) + 1
                                        in [DrawString (x1 + 2) y_text text])
                                     else
                                       (let line_h = max 8 (min 12 (h * (45 / 100)))
                                        in SetFont ''Helvetica'' line_h #
                                           stack_lines (x1 + 2) (y1 + 2) line_h (y2 - line_h - 2) vals)))))
                       else Inr []))))"

fun draw_annots :: "(string list \<Rightarrow> string) \<Rightarrow> pdfobj list \<Rightarrow> nat list \<Rightarrow> error + draw_op list" where
  "draw_annots L os [] = Inr []"
| "draw_annots L os (a # as) =
     (case draw_widget L os a of
        Inl e \<Rightarrow> Inl e
      | Inr ops \<Rightarrow> (case draw_annots L os as of Inl e \<Rightarrow> Inl e | Inr rest \<Rightarrow> Inr (ops @ rest)))"

text \<open>
  The overlay document: one page per source page, of the size of its media
  box, holding what the loop drew for that page.
\<close>

fun draw_pages :: "(string list \<Rightarrow> string) \<Rightarrow> pdfobj list \<Rightarrow> page list \<Rightarrow> error + ((rat \<times> rat) \<times> draw_op list) list" where
  "draw_pages L os [] = Inr []"
| "draw_pages L os (p # ps) =
     (case draw_annots L os (page_annots p) of
        Inl e \<Rightarrow> Inl e
      | Inr ops \<Rightarrow>
          (case draw_pages L os ps of
             Inl e \<Rightarrow> Inl e
           | Inr rest \<Rightarrow> Inr ((mediabox p, ops) # rest)))"

text \<open>
  Compositing an overlay page appends its drawing to the content of the
  page; the annotation list of the page is then deleted.
\<close>

definition merge_page :: "page \<Rightarrow> (rat \<times> rat) \<times> draw_op list \<Rightarrow> page" where
  "merge_page p overlay_page = p\<lparr>content_ops := content_ops p @ snd overlay_page\<rparr>"

definition flatten_page :: "page \<Rightarrow> (rat \<times> rat) \<times> draw_op list \<Rightarrow> page" where
  "flatten_page p overlay_page = (merge_page p overlay_page)\<lparr>annots := None\<rparr>"

definition flatten_to_visible :: "(string list \<Rightarrow> string) \<Rightarrow> doc \<Rightarrow> error + doc" where
  "flatten_to_visible L reader =
     (case draw_pages L (objs reader) (pages reader) of
        Inl e \<Rightarrow> Inl e
      | Inr overlay \<Rightarrow> Inr (reader\<lparr>pages := map2 flatten_page (pages reader) overlay\<rparr>))"

definition fill_and_flatten :: "(string list \<Rightarrow> string) \<Rightarrow> doc \<Rightarrow> data \<Rightarrow> error + doc" where
  "fill_and_flatten L reader data =
     (case fill_pdf_fields L reader data of
        Inl e \<Rightarrow> Inl e
      | Inr filled \<Rightarrow> flatten_to_visible L filled)"

section \<open>The field-loading pass of the editor\<close>

datatype gui_widget =
    GText string
  | GCheckbox string nat
  | GChoice string "string \<rightharpoonup> string"
  | GChoiceMulti string "string \<rightharpoonup> string"

definition gui_name_str :: "pdfobj \<Rightarrow> string" where
  "gui_name_str field = (case k_T field of None \<Rightarrow> ''(unnamed)'' | Some n \<Rightarrow> (if n \<noteq> [] then n else ''(unnamed)''))"

type_synonym gui_state = "(string \<rightharpoonup> nat) \<times> gui_widget list"

text \<open>The body of the annotation loop of \<^verbatim>\<open>PDFFormGUI._load_fields\<close>.\<close>

definition load_widget :: "(string list \<Rightarrow> string) \<Rightarrow> pdfobj list \<Rightarrow> gui_state \<Rightarrow> nat \<Rightarrow> error + gui_state" where
  "load_widget L os st a =
     (case st of (name_counts, widgets) \<Rightarrow>
        (case get_object os a of
           Inl e \<Rightarrow> Inl e
         | Inr annot \<Rightarrow>
             if \<not> is_widget annot then Inr st
             else
               (case get_field_from_annot os a annot of
                  Inl e \<Rightarrow> Inl e
                | Inr (f, field) \<Rightarrow>
                    (let name_str = gui_name_str field in
                     if is_text field then Inr (name_counts, widgets @ [GText name_str])
                     else if is_checkbox field then
                       (let idx = (case name_counts name_str of None \<Rightarrow> 0 | Some c \<Rightarrow> c) + 1
                        in Inr (name_counts(name_str \<mapsto> idx), widgets @ [GCheckbox name_str idx]))
                     else if is_choice field then
                       (let opts = choice_options L field in
                        if opts = [] then Inr (name_counts, widgets @ [GText name_str])
                        else
                          (let display_to_export = displays_dict opts in
                           if choice_is_multiselect field
                           then Inr (name_counts, widgets @ [GChoiceMulti name_str display_to_export])
                           else Inr (name_counts, widgets @ [GChoice name_str display_to_export])))
                     else Inr st))))"

fun load_annots :: "(string list \<Rightarrow> string) \<Rightarrow> pdfobj list \<Rightarrow> gui_state \<Rightarrow> nat list \<Rightarrow> error + gui_state" where
  "load_annots L os st [] = Inr st"
| "load_annots L os st (a # as) =
     (case load_widget L os st a of Inl e \<Rightarrow> Inl e | Inr st' \<Rightarrow> load_annots L os st' as)"

fun load_pages :: "(string list \<Rightarrow> string) \<Rightarrow> pdfobj list \<Rightarrow> gui_state \<Rightarrow> page list \<Rightarrow> error + gui_state" where
  "load_pages L os st [] = Inr st"
| "load_pages L os st (p # ps) =
     (case load_annots L os st (page_annots p) of Inl e \<Rightarrow> Inl e | Inr st' \<Rightarrow> load_pages L os st' ps)"

definition load_fields :: "(string list \<Rightarrow> string) \<Rightarrow> doc \<Rightarrow> error + gui_widget list" where
  "load_fields L reader =
     (case load_pages L (objs reader) (Map.empty, []) (pages reader) of
        Inl e \<Rightarrow> Inl e
      | Inr (name_counts, widgets) \<Rightarrow> Inr widgets)"

section \<open>The options of a field, described without the loop\<close>

text \<open>
  An option can be read unless it is an empty array. The pair of a readable
  option is (export, display), equal to each other for a string and for an
  array of one element; the fallback pair of an option is its string, twice.
\<close>

definition readable :: "opt_item \<Rightarrow> bool" where
  "readable it \<longleftrightarrow> it \<noteq> OArr []"

definition option_pair :: "opt_item \<Rightarrow> string \<times> string" where
  "option_pair it =
     (case it of
        OStr s \<Rightarrow> (s, s)
      | OArr xs \<Rightarrow> (case xs of [] \<Rightarrow> ([], []) | [e] \<Rightarrow> (e, e) | e # d # _ \<Rightarrow> (e, d)))"

definition fallback_pair :: "(string list \<Rightarrow> string) \<Rightarrow> opt_item \<Rightarrow> string \<times> string" where
  "fallback_pair L it = (str_item L it, str_item L it)"

section \<open>Example documents\<close>

text \<open>
  The empty dictionary, and the fields, documents and submitted mappings the
  examples below are built from. In the examples \<open>concat\<close> stands for the
  string conversion of a sequence.
\<close>

definition blank :: pdfobj where
  "blank = \<lparr>k_Subtype = None, k_Parent = None, k_FT = None, k_Ff = None, k_T = None,
            k_V = None, k_AS = None, k_AP = None, k_Rect = None, k_Opt = None\<rparr>"

definition ex_country :: pdfobj where
  "ex_country = blank\<lparr>k_FT := Some ''/Ch'', k_T := Some ''Country'',
                       k_Opt := Some (OptList [OArr [''us'', ''United States''], OStr ''France''])\<rparr>"

definition ex_shadowed :: pdfobj where
  "ex_shadowed = blank\<lparr>k_FT := Some ''/Ch'', k_T := Some ''Grade'',
                        k_Opt := Some (OptList [OArr [''a'', ''b''], OArr [''b'', ''c'']])\<rparr>"

definition ex_unreadable :: pdfobj where
  "ex_unreadable = blank\<lparr>k_FT := Some ''/Ch'', k_T := Some ''Size'',
                          k_Opt := Some (OptList [OArr [''x'', ''y''], OArr []])\<rparr>"

definition ex_box :: pdfobj where
  "ex_box = blank\<lparr>k_Subtype := Some ''/Widget'', k_FT := Some ''/Btn'', k_T := Some ''Agree'',
                   k_AP := Some (Some [''/Off'', ''/On'']), k_Rect := Some [10, 10, 30, 30]\<rparr>"

definition ex_page :: "nat list \<Rightarrow> page" where
  "ex_page as = \<lparr>annots = Some as, mediabox = (612, 792), content_ops = []\<rparr>"

definition ex_doc :: "pdfobj list \<Rightarrow> nat list \<Rightarrow> doc" where
  "ex_doc os as = \<lparr>objs = os, pages = [ex_page as], acroform = Some (Some True)\<rparr>"

definition ex_radio :: pdfobj where
  "ex_radio = ex_box\<lparr>k_Ff := Some 32768\<rparr>"

definition ex_empty_name :: pdfobj where
  "ex_empty_name = ex_box\<lparr>k_T := Some []\<rparr>"

definition data_agree :: data where
  "data_agree = [''Agree'' \<mapsto> VBool True]"

definition data_nameless :: data where
  "data_nameless = [''__1'' \<mapsto> VBool True]"

definition data_indexed :: data where
  "data_indexed = [''Agree__1'' \<mapsto> VStr ''x'', ''Agree'' \<mapsto> VBool False]"

definition data_group :: data where
  "data_group = [''Agree'' \<mapsto> VColl [''On'', ''Other'']]"

definition data_refuse :: data where
  "data_refuse = [''Agree'' \<mapsto> VBool False]"

definition data_text :: data where
  "data_text = [''Agree'' \<mapsto> VStr ''yes'']"

definition data_first :: data where
  "data_first = [''Agree__1'' \<mapsto> VBool True]"

definition data_second :: data where
  "data_second = [''Agree__2'' \<mapsto> VBool True]"

definition ex_checked_doc :: doc where
  "ex_checked_doc = ex_doc [ex_box\<lparr>k_AS := Some ''/On''\<rparr>] [0]"

definition ex_flat_doc :: doc where
  "ex_flat_doc = ex_checked_doc
     \<lparr>pages := [\<lparr>annots = None, mediabox = (612, 792),
                  content_ops = [SetLineWidth (12 / 5), SetStrokeGray 0,
                                 Line 12 12 28 28, Line 12 28 28 12]\<rparr>]\<rparr>"

definition ex_langs :: pdfobj where
  "ex_langs = blank\<lparr>k_Subtype := Some ''/Widget'', k_FT := Some ''/Ch'', k_Ff := Some 2097152,
                     k_T := Some ''Languages'', k_Rect := Some [0, 0, 100, 30],
                     k_Opt := Some (OptList [OArr [''en'', ''English''], OArr [''fr'', ''French''],
                                             OArr [''de'', ''German'']])\<rparr>"



section \<open>Well-formed documents and what the applier may touch\<close>







section \<open>Unfolding the examples\<close>

lemmas ex_defs = ex_page_def ex_doc_def ex_radio_def ex_empty_name_def ex_box_def blank_def
  data_agree_def data_nameless_def data_indexed_def data_group_def data_text_def data_refuse_def

lemmas fill_defs = fill_pdf_fields_def fill_widget_def get_object_def get_field_from_annot_def
  page_annots_def is_widget_def is_text_def is_checkbox_def is_radio_def is_choice_def
  is_pushbutton_def ff_def fill_name_str_def checkbox_checked_def checkbox_on_name_def
  set_checkbox_state_def str_nat.simps digit_char_def py_bool_def

lemmas draw_defs = flatten_to_visible_def draw_widget_def get_object_def get_field_from_annot_def
  page_annots_def is_widget_def is_text_def is_checkbox_def is_radio_def is_choice_def
  is_pushbutton_def ff_def to_float_rect_def flatten_page_def merge_page_def

section \<open>Choice resolution\<close>

text \<open>
  The dictionary comprehension of \<^verbatim>\<open>_choice_display_to_export\<close> keeps, for
  each display label, the export value of the last option that carries it.
\<close>

lemma foldl_displays:
  "foldl (\<lambda>m (ex, disp). m(disp \<mapsto> ex)) m options =
     m ++ map_of (rev (map (\<lambda>(ex, disp). (disp, ex)) options))"
proof (induction options arbitrary: m)
  case Nil
  then show ?case by simp
next
  case (Cons o1 os)
  obtain ex disp where o1: "o1 = (ex, disp)" by (cases o1)
  show ?case
    unfolding o1 by (simp add: Cons.IH del: fun_upd_apply)
qed

lemma displays_dict_map_of:
  "displays_dict options = map_of (rev (map (\<lambda>(ex, disp). (disp, ex)) options))"
  by (simp add: displays_dict_def foldl_displays)

lemma displays_dict_Some:
  "displays_dict options v = Some ex \<Longrightarrow> (ex, v) \<in> set options"
  by (auto simp: displays_dict_map_of dest!: map_of_SomeD)

lemma displays_dict_None:
  "displays_dict options v = None \<longleftrightarrow> v \<notin> snd ` set options"
  by (force simp: displays_dict_map_of map_of_eq_None_iff image_iff)

lemma ex_country_options:
  "choice_options concat ex_country = [(''us'', ''United States''), (''France'', ''France'')]"
  by (simp add: choice_options_def ex_country_def blank_def parse_option_def)

lemma ex_shadowed_options:
  "choice_options concat ex_shadowed = [(''a'', ''b''), (''b'', ''c'')]"
  by (simp add: choice_options_def ex_shadowed_def blank_def parse_option_def)

text \<open>
  Claim C4. For every choice field and every submitted string \<open>v\<close>,
  \<^verbatim>\<open>_choice_display_to_export\<close> returns \<open>v\<close> itself when \<open>v\<close> is the export
  value of some option of the field; otherwise it returns the export value of
  an option whose display label is \<open>v\<close>, when there is one; otherwise it
  returns \<open>v\<close> unchanged. The function is total: an unknown value raises
  nothing.
\<close>

theorem choice_display_to_export_priority:
  "(v \<in> fst ` set (choice_options L field) \<longrightarrow> choice_display_to_export L field v = v) \<and>
   (v \<notin> fst ` set (choice_options L field) \<and> v \<in> snd ` set (choice_options L field) \<longrightarrow>
      (choice_display_to_export L field v, v) \<in> set (choice_options L field)) \<and>
   (v \<notin> fst ` set (choice_options L field) \<and> v \<notin> snd ` set (choice_options L field) \<longrightarrow>
      choice_display_to_export L field v = v)"
proof -
  let ?opts = "choice_options L field"
  have a: "v \<in> fst ` set ?opts \<Longrightarrow> choice_display_to_export L field v = v"
    by (simp add: choice_display_to_export_def Let_def)
  have b: "(choice_display_to_export L field v, v) \<in> set ?opts"
    if "v \<notin> fst ` set ?opts" "v \<in> snd ` set ?opts"
  proof -
    from that(2) obtain ex where "displays_dict ?opts v = Some ex"
      using displays_dict_None [of ?opts v] by (cases "displays_dict ?opts v") auto
    with that(1) show ?thesis
      by (simp add: choice_display_to_export_def Let_def displays_dict_Some)
  qed
  have c: "choice_display_to_export L field v = v"
    if "v \<notin> fst ` set ?opts" "v \<notin> snd ` set ?opts"
    using that displays_dict_None [of ?opts v]
    by (simp add: choice_display_to_export_def Let_def)
  from a b c show ?thesis by blast
qed

theorem choice_display_to_export_priority_witness:
  "''us'' \<in> fst ` set (choice_options concat ex_country) \<and>
   choice_display_to_export concat ex_country ''us'' = ''us'' \<and>
   ''United States'' \<notin> fst ` set (choice_options concat ex_country) \<and>
   ''United States'' \<in> snd ` set (choice_options concat ex_country) \<and>
   (choice_display_to_export concat ex_country ''United States'', ''United States'')
      \<in> set (choice_options concat ex_country) \<and>
   ''Spain'' \<notin> fst ` set (choice_options concat ex_country) \<and>
   ''Spain'' \<notin> snd ` set (choice_options concat ex_country) \<and>
   choice_display_to_export concat ex_country ''Spain'' = ''Spain''"
  using choice_display_to_export_priority [of "''us''" concat ex_country]
        choice_display_to_export_priority [of "''United States''" concat ex_country]
        choice_display_to_export_priority [of "''Spain''" concat ex_country]
  by (simp add: ex_country_options)

text \<open>
  Claim C5, as stated, fails: in a field with the options \<open>(a, b)\<close> and
  \<open>(b, c)\<close>, submitting the export value \<open>a\<close> stores \<open>a\<close>, and submitting
  its paired label \<open>b\<close> stores \<open>b\<close>, because an exact export match is
  preferred; the two are rendered as \<open>b\<close> and \<open>c\<close>.
\<close>

theorem choice_roundtrip_counterexample:
  "(''a'', ''b'') \<in> set (choice_options concat ex_shadowed) \<and>
   choice_display_to_export concat ex_shadowed ''a'' = ''a'' \<and>
   choice_display_to_export concat ex_shadowed ''b'' = ''b'' \<and>
   choice_export_to_display concat ex_shadowed ''a'' = ''b'' \<and>
   choice_export_to_display concat ex_shadowed ''b'' = ''c''"
  by (simp add: choice_display_to_export_def choice_export_to_display_def ex_shadowed_options)

text \<open>
  Claim C5, amended. For every choice field and every option
  \<open>(export, display)\<close> of it such that no option with another export value
  carries the same display label, and the display label is not itself an
  export value of the field unless it equals \<open>export\<close>: submitting the
  export value and submitting the display label both resolve to \<open>export\<close>,
  and so both are rendered with the same display label.
\<close>

theorem choice_roundtrip_unambiguous:
  assumes opt: "(export, display) \<in> set (choice_options L field)"
    and label: "\<forall>ex. (ex, display) \<in> set (choice_options L field) \<longrightarrow> ex = export"
    and code: "display \<in> fst ` set (choice_options L field) \<longrightarrow> display = export"
  shows "choice_display_to_export L field export = export \<and>
         choice_display_to_export L field display = export \<and>
         choice_export_to_display L field (choice_display_to_export L field export) =
         choice_export_to_display L field (choice_display_to_export L field display)"
proof -
  let ?opts = "choice_options L field"
  from opt have "export \<in> fst ` set ?opts" by force
  then have e: "choice_display_to_export L field export = export"
    by (simp add: choice_display_to_export_def Let_def)
  have d: "choice_display_to_export L field display = export"
  proof (cases "display \<in> fst ` set ?opts")
    case True
    with code have "display = export" by simp
    with e show ?thesis by simp
  next
    case False
    from opt have "display \<in> snd ` set ?opts" by force
    then obtain ex where ex: "displays_dict ?opts display = Some ex"
      using displays_dict_None [of ?opts display] by (cases "displays_dict ?opts display") auto
    then have "(ex, display) \<in> set ?opts" by (rule displays_dict_Some)
    with label have "ex = export" by simp
    with ex False show ?thesis
      by (simp add: choice_display_to_export_def Let_def)
  qed
  from e d show ?thesis by simp
qed

theorem choice_roundtrip_unambiguous_witness:
  "(''us'', ''United States'') \<in> set (choice_options concat ex_country) \<and>
   choice_display_to_export concat ex_country ''us'' = ''us'' \<and>
   choice_display_to_export concat ex_country ''United States'' = ''us'' \<and>
   choice_export_to_display concat ex_country (choice_display_to_export concat ex_country ''us'') =
   choice_export_to_display concat ex_country (choice_display_to_export concat ex_country ''United States'')"
proof -
  have a: "(''us'', ''United States'') \<in> set (choice_options concat ex_country)"
    by (simp add: ex_country_options)
  have b: "\<forall>ex. (ex, ''United States'') \<in> set (choice_options concat ex_country) \<longrightarrow> ex = ''us''"
    by (simp add: ex_country_options)
  have c: "''United States'' \<in> fst ` set (choice_options concat ex_country) \<longrightarrow> ''United States'' = ''us''"
    by (simp add: ex_country_options)
  from choice_roundtrip_unambiguous [OF a b c] a show ?thesis by simp
qed

section \<open>Reading the options of a choice field\<close>

lemma parse_option_readable:
  "readable it \<Longrightarrow> parse_option it = Inr (option_pair it)"
  by (auto simp: readable_def parse_option_def option_pair_def split: opt_item.splits list.splits)

lemma parse_option_unreadable:
  "\<not> readable it \<Longrightarrow> parse_option it = Inl MalformedDocument"
  by (simp add: readable_def parse_option_def)

lemma parse_loop_closed:
  "parse_loop its result =
     (result @ map option_pair (takeWhile readable its), \<not> list_all readable its)"
proof (induction its arbitrary: result)
  case Nil
  then show ?case by simp
next
  case (Cons it its)
  show ?case
  proof (cases "readable it")
    case True
    then show ?thesis by (simp add: parse_option_readable Cons.IH)
  next
    case False
    then show ?thesis by (simp add: parse_option_unreadable)
  qed
qed

text \<open>
  Claim C9, as stated, fails. With the options \<open>[x, y]\<close> and \<open>[]\<close>, reading
  the second option raises; the pair \<open>(x, y)\<close> read before it stays in the
  result, and the fallback appends the string of every option (\<open>concat\<close>
  stands for the string conversion of the library here). The result is
  neither empty nor made of pairs with equal components, and the field does
  not behave as a field with no options.
\<close>

theorem choice_options_counterexample:
  "k_Opt ex_unreadable = Some (OptList [OArr [''x'', ''y''], OArr []]) \<and>
   parse_option (OArr []) = Inl MalformedDocument \<and>
   choice_options concat ex_unreadable = [(''x'', ''y''), (''xy'', ''xy''), ('''', '''')]"
  by (simp add: choice_options_def ex_unreadable_def blank_def parse_option_def str_item_def)

text \<open>
  Claim C9, amended. \<^verbatim>\<open>_choice_options\<close> is total and propagates no
  exception. Without an \<^verbatim>\<open>/Opt\<close> entry, or with one that is empty or cannot
  be iterated, it returns the empty list. When every option can be read it
  returns one pair per option. When reading an option raises, the result ends
  with the string fallback of every option, each with its export equal to its
  display; it is preceded by the pairs read before the exception.
\<close>

theorem choice_options_total:
  "(k_Opt field = None \<or> k_Opt field = Some OptNotIterable \<or> k_Opt field = Some (OptList [])
      \<longrightarrow> choice_options L field = []) \<and>
   (k_Opt field = Some (OptList opts) \<and> list_all readable opts
      \<longrightarrow> choice_options L field = map option_pair opts) \<and>
   (k_Opt field = Some (OptList opts) \<and> \<not> list_all readable opts
      \<longrightarrow> choice_options L field =
            map option_pair (takeWhile readable opts) @ map (fallback_pair L) opts \<and>
          (\<forall>p \<in> set (map (fallback_pair L) opts). fst p = snd p))"
proof -
  have a: "choice_options L field = []"
    if "k_Opt field = None \<or> k_Opt field = Some OptNotIterable \<or> k_Opt field = Some (OptList [])"
    using that by (auto simp: choice_options_def)
  have b: "choice_options L field = map option_pair opts"
    if "k_Opt field = Some (OptList opts)" "list_all readable opts"
  proof -
    from that(2) have tw: "takeWhile readable opts = opts"
      by (simp add: list_all_iff takeWhile_eq_all_conv)
    from that show ?thesis
      by (simp add: choice_options_def parse_loop_closed tw)
  qed
  have c: "choice_options L field =
             map option_pair (takeWhile readable opts) @ map (fallback_pair L) opts"
    if "k_Opt field = Some (OptList opts)" "\<not> list_all readable opts"
  proof -
    from that(2) have "opts \<noteq> []" by auto
    with that show ?thesis
      by (simp add: choice_options_def parse_loop_closed fallback_pair_def)
  qed
  have d: "\<forall>p \<in> set (map (fallback_pair L) opts). fst p = snd p"
    by (simp add: fallback_pair_def)
  from a b c d show ?thesis by blast
qed

theorem choice_options_total_witness:
  "k_Opt blank = None \<and> choice_options concat blank = [] \<and>
   k_Opt ex_country = Some (OptList [OArr [''us'', ''United States''], OStr ''France'']) \<and>
   list_all readable [OArr [''us'', ''United States''], OStr ''France''] \<and>
   choice_options concat ex_country = [(''us'', ''United States''), (''France'', ''France'')] \<and>
   k_Opt ex_unreadable = Some (OptList [OArr [''x'', ''y''], OArr []]) \<and>
   \<not> list_all readable [OArr [''x'', ''y''], OArr []] \<and>
   choice_options concat ex_unreadable = [(''x'', ''y''), (''xy'', ''xy''), ('''', '''')]"
  using choice_options_total [where field = blank and L = concat]
    choice_options_total [where field = ex_country and L = concat
      and opts = "[OArr [''us'', ''United States''], OStr ''France'']"]
    choice_options_total [where field = ex_unreadable and L = concat
      and opts = "[OArr [''x'', ''y''], OArr []]"]
  by (simp add: blank_def ex_country_def ex_unreadable_def readable_def option_pair_def
      fallback_pair_def str_item_def)

section \<open>Checkbox state and its rendering\<close>





lemma checkbox_not_text: "is_checkbox field \<Longrightarrow> \<not> is_text field"
  by (simp add: is_checkbox_def is_text_def)





section \<open>Radio buttons\<close>





section \<open>Resolution of a checkbox\<close>

text \<open>
  The applier reads an empty \<^verbatim>\<open>/T\<close> as no name: no key is looked up for
  such a widget, and its state is left as it is.
\<close>

lemma empty_name_is_no_name:
  "is_widget ex_empty_name \<and> is_checkbox ex_empty_name \<and> \<not> is_radio ex_empty_name \<and>
   k_T ex_empty_name = Some [] \<and> k_AS ex_empty_name = None \<and>
   data_nameless ([] @ ''__'' @ str_nat 1) = Some (VBool True) \<and>
   fill_pdf_fields concat (ex_doc [ex_empty_name] [0]) data_nameless =
     Inr (ex_doc [ex_empty_name] [0])"
  by (simp add: ex_defs fill_defs)



section \<open>Flattening twice\<close>

lemma draw_pages_length:
  "draw_pages L os ps = Inr overlay \<Longrightarrow> length overlay = length ps"
  by (induction ps arbitrary: overlay) (auto split: sum.splits)

lemma draw_pages_no_annots:
  "\<forall>p \<in> set ps. annots p = None \<Longrightarrow>
   draw_pages L os ps = Inr (map (\<lambda>p. (mediabox p, [])) ps)"
  by (induction ps) (simp_all add: page_annots_def)

lemma flatten_page_empty:
  "annots p = None \<Longrightarrow> flatten_page p (mediabox p, []) = p"
  by (simp add: flatten_page_def merge_page_def)

lemma map2_flatten_page_empty:
  "\<forall>p \<in> set ps. annots p = None \<Longrightarrow>
   map2 flatten_page ps (map (\<lambda>p. (mediabox p, [])) ps) = ps"
  by (induction ps) (simp_all add: flatten_page_empty)

lemma map2_flatten_page_annots:
  "p \<in> set (map2 flatten_page ps overlay) \<Longrightarrow> annots p = None"
  by (auto simp: flatten_page_def merge_page_def set_zip)

text \<open>
  Claim C7. \<^verbatim>\<open>flatten_to_visible\<close> deletes the \<^verbatim>\<open>/Annots\<close> entry of every
  page after compositing the overlay. Applied to its own output it therefore
  finds no annotation, draws an empty overlay for every page and returns the
  document as it was: the second pass changes nothing.
\<close>

theorem flatten_twice:
  assumes "flatten_to_visible L reader = Inr out"
  shows "(\<forall>p \<in> set (pages out). annots p = None) \<and>
         length (pages out) = length (pages reader) \<and>
         draw_pages L (objs out) (pages out) = Inr (map (\<lambda>p. (mediabox p, [])) (pages out)) \<and>
         flatten_to_visible L out = Inr out"
proof -
  from assms obtain overlay where ov: "draw_pages L (objs reader) (pages reader) = Inr overlay"
    and out: "out = reader\<lparr>pages := map2 flatten_page (pages reader) overlay\<rparr>"
    by (auto simp: flatten_to_visible_def split: sum.splits)
  have none: "\<forall>p \<in> set (pages out). annots p = None"
  proof
    fix p assume "p \<in> set (pages out)"
    with out have "p \<in> set (map2 flatten_page (pages reader) overlay)" by simp
    then show "annots p = None" by (rule map2_flatten_page_annots)
  qed
  have len: "length (pages out) = length (pages reader)"
    using out draw_pages_length [OF ov] by simp
  have drawn: "draw_pages L (objs out) (pages out) = Inr (map (\<lambda>p. (mediabox p, [])) (pages out))"
    using none by (rule draw_pages_no_annots)
  have "flatten_to_visible L out = Inr (out\<lparr>pages := pages out\<rparr>)"
    by (simp add: flatten_to_visible_def drawn map2_flatten_page_empty [OF none])
  with none len drawn show ?thesis by simp
qed

theorem flatten_twice_witness:
  "flatten_to_visible concat ex_checked_doc = Inr ex_flat_doc \<and>
   length (pages ex_flat_doc) = length (pages ex_checked_doc) \<and>
   draw_pages concat (objs ex_flat_doc) (pages ex_flat_doc) = Inr [((612, 792), [])] \<and>
   flatten_to_visible concat ex_flat_doc = Inr ex_flat_doc"
proof -
  have 1: "flatten_to_visible concat ex_checked_doc = Inr ex_flat_doc"
    by (simp add: ex_checked_doc_def ex_flat_doc_def ex_defs draw_defs)
  from flatten_twice [OF 1] 1 show ?thesis
    by (simp add: ex_flat_doc_def ex_checked_doc_def ex_doc_def)
qed

section \<open>Multi-line rendering of a choice\<close>

lemma stack_lines_length: "length (stack_lines x lo line_h y vals) \<le> length vals"
  by (induction vals arbitrary: y) auto


lemma stack_lines_stop:
  "length (stack_lines x lo line_h y vals) < length vals \<Longrightarrow>
   y - of_nat (length (stack_lines x lo line_h y vals)) * (line_h + 2) < lo"
proof (induction vals arbitrary: y)
  case Nil
  then show ?case by simp
next
  case (Cons v vs)
  show ?case
  proof (cases "y < lo")
    case True
    then show ?thesis by simp
  next
    case False
    with Cons.prems have "length (stack_lines x lo line_h (y - (line_h + 2)) vs) < length vs"
      by simp
    from Cons.IH [OF this] False show ?thesis
      by (simp add: algebra_simps)
  qed
qed

lemma stack_lines_all:
  "\<forall>i < length vals. lo \<le> y - of_nat i * (line_h + 2) \<Longrightarrow>
   length (stack_lines x lo line_h y vals) = length vals"
proof (rule ccontr)
  assume fit: "\<forall>i < length vals. lo \<le> y - of_nat i * (line_h + 2)"
    and "length (stack_lines x lo line_h y vals) \<noteq> length vals"
  with stack_lines_length [of x lo line_h y vals]
  have less: "length (stack_lines x lo line_h y vals) < length vals" by simp
  from stack_lines_stop [OF less] fit less show False by force
qed


lemma ex_langs_options:
  "choice_options concat ex_langs = [(''en'', ''English''), (''fr'', ''French''), (''de'', ''German'')]"
  by (simp add: choice_options_def ex_langs_def blank_def parse_option_def)




section \<open>The applier never fails on data\<close>



















section \<open>Occurrence indices in the two passes\<close>

text \<open>
  Where the two passes agree: on a checkbox widget that is not a radio button
  and has a name, both compute the same index from equal counters, and both
  store it under that name.
\<close>

lemma index_agreement_step:
  assumes annot: "get_object os a = Inr annot" "is_widget annot"
    and field: "get_field_from_annot os a annot = Inr (f, field)"
    and box: "is_checkbox field" "\<not> is_radio field"
    and name: "fill_name_str field = Some N"
    and counts: "gui_counts N = fill_counts N"
  shows "\<exists>idx os'.
           fill_widget L data (fill_counts, os) a = Inr (fill_counts(N \<mapsto> idx), os') \<and>
           load_widget L os (gui_counts, widgets) a =
             Inr (gui_counts(N \<mapsto> idx), widgets @ [GCheckbox N idx])"
proof -
  from box(1) have nt: "\<not> is_text field" by (rule checkbox_not_text)
  from name have gn: "gui_name_str field = N"
    by (auto simp: fill_name_str_def gui_name_str_def split: option.splits if_splits)
  let ?idx = "(case fill_counts N of None \<Rightarrow> 0 | Some c \<Rightarrow> c) + 1"
  have "\<exists>os'. fill_widget L data (fill_counts, os) a = Inr (fill_counts(N \<mapsto> ?idx), os')"
    using annot field nt box name
    by (simp add: fill_widget_def Let_def split: option.split)
  moreover have "load_widget L os (gui_counts, widgets) a =
             Inr (gui_counts(N \<mapsto> ?idx), widgets @ [GCheckbox N ?idx])"
    using annot field nt box(1) gn counts
    by (simp add: load_widget_def Let_def)
  ultimately show ?thesis by blast
qed

text \<open>
  Claim C1 asks that the loading pass of the editor and the applier give the
  same occurrence index to the same widget, and the code does not do so. The
  loading pass numbers every widget that \<^verbatim>\<open>_is_checkbox\<close> accepts; the
  applier numbers only those that are not radio buttons as well. On a page
  with a radio widget and then a checkbox widget, both of a field named
  \<open>Agree\<close>, the editor gives the checkbox the index 2 and labels its control
  \<open>Agree__2\<close>, and its counter ends at 2; the applier gives the same widget
  the index 1 and its counter ends at 1. So the value submitted under
  \<open>Agree__2\<close> is not applied, and the value under \<open>Agree__1\<close>, which the
  editor collected for the radio widget, sets the checkbox.
\<close>

theorem occurrence_index_desync:
  "is_checkbox ex_radio \<and> is_radio ex_radio \<and> is_checkbox ex_box \<and> \<not> is_radio ex_box \<and>
   load_pages concat [ex_radio, ex_box] (Map.empty, []) [ex_page [0, 1]] =
     Inr ([''Agree'' \<mapsto> 2], [GCheckbox ''Agree'' 1, GCheckbox ''Agree'' 2]) \<and>
   load_fields concat (ex_doc [ex_radio, ex_box] [0, 1]) =
     Inr [GCheckbox ''Agree'' 1, GCheckbox ''Agree'' 2] \<and>
   fill_pages concat data_second (Map.empty, [ex_radio, ex_box]) [ex_page [0, 1]] =
     Inr ([''Agree'' \<mapsto> 1], [ex_radio, ex_box]) \<and>
   fill_pdf_fields concat (ex_doc [ex_radio, ex_box] [0, 1]) data_second =
     Inr (ex_doc [ex_radio, ex_box] [0, 1]) \<and>
   fill_pdf_fields concat (ex_doc [ex_radio, ex_box] [0, 1]) data_first =
     Inr (ex_doc [ex_radio, ex_box\<lparr>k_AS := Some ''/On''\<rparr>] [0, 1])"
proof -
  have cls: "is_checkbox ex_radio \<and> is_radio ex_radio \<and> is_checkbox ex_box \<and> \<not> is_radio ex_box"
    by (simp add: ex_defs is_checkbox_def is_pushbutton_def is_radio_def ff_def)
  have gui: "load_pages concat [ex_radio, ex_box] (Map.empty, []) [ex_page [0, 1]] =
     Inr ([''Agree'' \<mapsto> 2], [GCheckbox ''Agree'' 1, GCheckbox ''Agree'' 2])"
    by (simp add: ex_defs load_widget_def gui_name_str_def get_object_def
        get_field_from_annot_def page_annots_def is_widget_def is_text_def is_checkbox_def
        is_pushbutton_def ff_def Let_def numeral_2_eq_2)
  then have gui': "load_fields concat (ex_doc [ex_radio, ex_box] [0, 1]) =
     Inr [GCheckbox ''Agree'' 1, GCheckbox ''Agree'' 2]"
    by (simp add: load_fields_def ex_doc_def)
  have fill: "fill_pages concat data_second (Map.empty, [ex_radio, ex_box]) [ex_page [0, 1]] =
     Inr ([''Agree'' \<mapsto> 1], [ex_radio, ex_box])"
    by (simp add: ex_defs fill_defs data_second_def Let_def)
  then have fill': "fill_pdf_fields concat (ex_doc [ex_radio, ex_box] [0, 1]) data_second =
     Inr (ex_doc [ex_radio, ex_box] [0, 1])"
    by (simp add: fill_pdf_fields_def ex_doc_def)
  have fill1: "fill_pdf_fields concat (ex_doc [ex_radio, ex_box] [0, 1]) data_first =
     Inr (ex_doc [ex_radio, ex_box\<lparr>k_AS := Some ''/On''\<rparr>] [0, 1])"
    by (simp add: ex_defs fill_defs data_first_def Let_def)
  from cls gui gui' fill fill' fill1 show ?thesis by simp
qed

end
